theory Spec2Isabelle
  imports Main "HOL-Library.Word"
begin

section \<open>Machine types\<close>

text \<open>
  The Windows scalar types the headers use: \<open>BYTE\<close> is an unsigned 8-bit value,
  \<open>DWORD\<close> an unsigned 32-bit value whose arithmetic wraps around. A pointer is
  \<open>None\<close> when it is \<open>nullptr\<close> and \<open>Some a\<close> when it holds the address \<open>a\<close>; a
  bitmap handle is \<open>None\<close> when it is \<open>NULL\<close>.
\<close>

type_synonym BYTE = "8 word"
type_synonym DWORD = "32 word"
type_synonym addr = nat
type_synonym HBITMAP = nat

record RGBQUAD =
  rgbBlue :: BYTE
  rgbGreen :: BYTE
  rgbRed :: BYTE
  rgbReserved :: BYTE

section \<open>Sprites (Sprite.h, DMDView.h)\<close>

text \<open>
  A loaded sprite. \<open>'tex\<close> stands for what loading a DIB produces (texture, resource
  view, mesh); a \<open>DMDSprite\<close> carries in addition the background colour and alpha
  given to its constructor.
\<close>

datatype 'tex Sprite =
  PlainSprite 'tex
| DMDSprite RGBQUAD BYTE 'tex

text \<open>
  \<open>DMDSprite::Load\<close>: construct a \<open>DMDSprite(bgColor, bgAlpha)\<close>, load the DIB into it,
  and return the sprite, or \<open>nullptr\<close> when loading fails. \<open>Sprite::LoadDIB\<close> is
  declared in Sprite.h with no body; it is the parameter \<open>LoadDIB\<close>, \<open>None\<close> standing
  for the return value \<open>false\<close>.
\<close>

definition DMDSprite_Load ::
  "('bmi \<Rightarrow> addr option \<Rightarrow> 'tex option) \<Rightarrow> RGBQUAD \<Rightarrow> BYTE \<Rightarrow> 'bmi \<Rightarrow> addr option
    \<Rightarrow> 'tex Sprite option" where
  "DMDSprite_Load LoadDIB bgc bga bmInfo bits =
     (case LoadDIB bmInfo bits of
        Some t \<Rightarrow> Some (DMDSprite bgc bga t)
      | None \<Rightarrow> None)"

section \<open>HighScoreImage (DMDView.h)\<close>

datatype SpriteType = NoSpriteType | NormalSpriteType | DMDSpriteType

text \<open>
  The members of \<open>DMDView::HighScoreImage\<close>, in declaration order. \<open>'bmi\<close> is the
  \<open>BITMAPINFO\<close> structure, which the code only copies with \<open>memcpy\<close>.
\<close>

record ('bmi, 'tex) HighScoreImage =
  spriteType :: SpriteType
  sprite :: "'tex Sprite option"
  hbmp :: "HBITMAP option"
  bmi :: 'bmi
  dibits :: "addr option"
  displayTime :: DWORD
  bgColor :: RGBQUAD
  bgAlpha :: BYTE

text \<open>The default member initialisers of \<open>bgColor\<close> (\<open>{0, 0, 0, 0}\<close>).\<close>

definition default_bgColor :: RGBQUAD where
  "default_bgColor = \<lparr>rgbBlue = 0, rgbGreen = 0, rgbRed = 0, rgbReserved = 0\<rparr>"

text \<open>
  Modelled from the spec: \<open>RefPtr::Detach\<close> and \<open>HBITMAPHolder::Detach\<close>, whose
  classes are declared outside these headers. The spec describes the manual Detach/Attach
  transfer as one where "transfer is explicit and the source becomes empty": the call
  returns what the holder held and leaves the holder null.
\<close>

definition Detach :: "'a option \<Rightarrow> 'a option \<times> 'a option" where
  "Detach holder = (holder, None)"

text \<open>
  The four value constructors. A member with no initialiser in the constructor takes its
  default member initialiser; \<open>bmi\<close> has none, so where the constructor does not
  \<open>memcpy\<close> into it, it keeps what its storage held before (\<open>raw_bmi\<close>).
\<close>

definition HighScoreImage_type ::
  "'bmi \<Rightarrow> SpriteType \<Rightarrow> DWORD \<Rightarrow> ('bmi, 'tex) HighScoreImage" where
  "HighScoreImage_type raw_bmi st t =
     \<lparr>spriteType = st, sprite = None, hbmp = None, bmi = raw_bmi, dibits = None,
      displayTime = t, bgColor = default_bgColor, bgAlpha = 255\<rparr>"

definition HighScoreImage_sprite ::
  "'bmi \<Rightarrow> 'tex Sprite option \<Rightarrow> DWORD \<Rightarrow> ('bmi, 'tex) HighScoreImage" where
  "HighScoreImage_sprite raw_bmi sp t =
     \<lparr>spriteType = NoSpriteType, sprite = sp, hbmp = None, bmi = raw_bmi, dibits = None,
      displayTime = t, bgColor = default_bgColor, bgAlpha = 255\<rparr>"

definition HighScoreImage_dib ::
  "SpriteType \<Rightarrow> 'bmi \<Rightarrow> addr option \<Rightarrow> DWORD \<Rightarrow> RGBQUAD \<Rightarrow> BYTE
    \<Rightarrow> ('bmi, 'tex) HighScoreImage" where
  "HighScoreImage_dib st bmInfo bits t bgc bga =
     \<lparr>spriteType = st, sprite = None, hbmp = None, bmi = bmInfo, dibits = bits,
      displayTime = t, bgColor = bgc, bgAlpha = bga\<rparr>"

definition HighScoreImage_hbmp ::
  "SpriteType \<Rightarrow> HBITMAP option \<Rightarrow> 'bmi \<Rightarrow> addr option \<Rightarrow> DWORD
    \<Rightarrow> ('bmi, 'tex) HighScoreImage" where
  "HighScoreImage_hbmp st h bmInfo bits t =
     \<lparr>spriteType = st, sprite = None, hbmp = h, bmi = bmInfo, dibits = bits,
      displayTime = t, bgColor = default_bgColor, bgAlpha = 255\<rparr>"

text \<open>
  The transfer constructor \<open>HighScoreImage(HighScoreImage &i)\<close>. It returns the new
  object and the source as the constructor leaves it. The initialisers
  \<open>bgColor(bgColor)\<close> and \<open>bgAlpha(bgAlpha)\<close> name the members of the object under
  construction, not of \<open>i\<close>: each member is initialised from itself, that is from
  whatever its storage held before the constructor ran (\<open>raw_bgColor\<close>,
  \<open>raw_bgAlpha\<close>); a member named in the initialiser list does not take its default
  member initialiser.
\<close>

definition HighScoreImage_transfer ::
  "RGBQUAD \<Rightarrow> BYTE \<Rightarrow> ('bmi, 'tex) HighScoreImage
    \<Rightarrow> ('bmi, 'tex) HighScoreImage \<times> ('bmi, 'tex) HighScoreImage" where
  "HighScoreImage_transfer raw_bgColor raw_bgAlpha i =
     (let (sp, i_sprite) = Detach (sprite i);
          (h, i_hbmp) = Detach (hbmp i)
      in (\<lparr>spriteType = spriteType i, sprite = sp, hbmp = h, bmi = bmi i,
           dibits = dibits i, displayTime = displayTime i,
           bgColor = raw_bgColor, bgAlpha = raw_bgAlpha\<rparr>,
          i\<lparr>sprite := i_sprite, hbmp := i_hbmp, dibits := None\<rparr>))"

text \<open>
  The destructor body: the list of addresses it passes to \<open>delete[]\<close>, in order.
\<close>

definition HighScoreImage_dtor :: "('bmi, 'tex) HighScoreImage \<Rightarrow> addr list" where
  "HighScoreImage_dtor img =
     (if hbmp img = None \<and> dibits img \<noteq> None then [the (dibits img)] else [])"

text \<open>
  \<open>CreateSprite\<close>. \<open>Sprite::Load(bmi, dibits, ...)\<close> is declared in Sprite.h with no
  body; it is the parameter \<open>Sprite_Load\<close>, returning \<open>None\<close> for \<open>nullptr\<close>.
  The two loader parameters say what the loads return at the time of this call: loading
  creates a texture on the rendering device, so a later call may be given other loaders.
  \<open>sprite.Attach(p)\<close> on a null holder makes the holder hold \<open>p\<close>.
\<close>

definition CreateSprite ::
  "('bmi \<Rightarrow> addr option \<Rightarrow> 'tex Sprite option) \<Rightarrow> ('bmi \<Rightarrow> addr option \<Rightarrow> 'tex option)
    \<Rightarrow> ('bmi, 'tex) HighScoreImage \<Rightarrow> ('bmi, 'tex) HighScoreImage" where
  "CreateSprite Sprite_Load LoadDIB img =
     (if sprite img = None then
        (case spriteType img of
           DMDSpriteType \<Rightarrow>
             img\<lparr>sprite := DMDSprite_Load LoadDIB (bgColor img) (bgAlpha img) (bmi img) (dibits img)\<rparr>
         | _ \<Rightarrow> img\<lparr>sprite := Sprite_Load (bmi img) (dibits img)\<rparr>)
      else img)"

section \<open>DMDView: request sequence numbers (DMDView.h)\<close>

text \<open>
  The members of \<open>DMDView\<close> that the high-score image protocol uses.
  \<open>highScorePos\<close> is the list iterator, kept as an index into \<open>highScoreImages\<close>.
\<close>

record ('bmi, 'tex) DMDView =
  highScoreImages :: "('bmi, 'tex) HighScoreImage list"
  highScorePos :: nat
  nextImageRequestSeqNo :: DWORD
  pendingImageRequestSeqNo :: DWORD

text \<open>
  A freshly constructed view: the counters from their default member initialisers, the
  list default-constructed (empty), the position at the start of the list.
\<close>

definition DMDView_new :: "('bmi, 'tex) DMDView" where
  "DMDView_new =
     \<lparr>highScoreImages = [], highScorePos = 0,
      nextImageRequestSeqNo = 1, pendingImageRequestSeqNo = 0\<rparr>"


text \<open>
  Modelled from the spec: the body of \<open>DMDView::SetHighScoreImages\<close>, which the header
  only declares. "\<open>SetHighScoreImages(seqno, images)\<close> is rejected (images discarded) if
  \<open>seqno != pendingSequenceNumber\<close>"; otherwise the images become the view's high-score
  list, which restarts at its first entry. The result is the view and the images that are
  destroyed by the call: the rejected ones, or the list that the adopted ones replace.
\<close>

definition SetHighScoreImages ::
  "DWORD \<Rightarrow> ('bmi, 'tex) HighScoreImage list \<Rightarrow> ('bmi, 'tex) DMDView
    \<Rightarrow> ('bmi, 'tex) DMDView \<times> ('bmi, 'tex) HighScoreImage list" where
  "SetHighScoreImages seqno images v =
     (if seqno = pendingImageRequestSeqNo v
      then (v\<lparr>highScoreImages := images, highScorePos := 0\<rparr>, highScoreImages v)
      else (v, images))"

text \<open>Destroying a list of images runs the destructor of each, in order.\<close>

definition DestroyImages :: "('bmi, 'tex) HighScoreImage list \<Rightarrow> addr list" where
  "DestroyImages images = concat (map HighScoreImage_dtor images)"

section \<open>RealDMD: slides, writer mailboxes, session (RealDMD.h)\<close>

datatype ColorSpace = DMD_COLOR_MONO4 | DMD_COLOR_MONO16 | DMD_COLOR_RGB

datatype SlideType = EmptySlide | MediaSlide | HighScoreSlide

record Slide =
  slideType :: SlideType
  colorSpace :: ColorSpace
  pix :: "BYTE list"
  displayTime :: DWORD

text \<open>\<open>'opts\<close> is \<open>DMDDevice::tPMoptions\<close>, declared in DmdDeviceDll.h.\<close>

record 'opts GameSettings =
  gameName :: string
  opts :: 'opts

text \<open>
  The calls into the device DLL that the writer thread makes, as the spec's device driver
  interface names them: \<open>SendGameSettings(gameId, options)\<close>, the export
  \<open>PM_GameSettings\<close>, and \<open>SendFrame(colorSpace, pixels)\<close>.
\<close>

datatype 'opts DeviceCall =
  PM_GameSettings string 'opts
| SendFrame ColorSpace "BYTE list"

text \<open>
  The members of \<open>RealDMD\<close> that the scheduler, the session and the writer thread use.
  \<open>writerEvent\<close> is the state of the event \<open>hWriterEvent\<close>; \<open>slideShowPos\<close> is the
  list iterator, kept as an index; \<open>slideShowTimerDelay\<close> is the delay the slide-show
  timer was last armed with.
\<close>

record 'opts RealDMD =
  enabled :: bool
  sessionOpen :: bool
  writerThreadQuit :: bool
  writerEvent :: bool
  slideShow :: "Slide list"
  writerFrame :: "Slide option"
  writerSettings :: "'opts GameSettings option"
  slideShowPos :: nat
  slideShowTimerRunning :: bool
  slideShowTimerDelay :: DWORD

text \<open>
  Modelled from the spec: the state after \<open>RealDMD::Init\<close>, whose body is not in the
  header. "Enable decision: computed once at startup from environment/capability probing
  (e.g., presence of a compatible driver, configuration flag)"; with the driver DLL absent
  the "session reports disabled". \<open>dllFound\<close> is the result of \<open>FindDLL\<close>,
  \<open>shouldEnable\<close> that of \<open>ShouldEnable\<close>. The other members are as the default
  member initialisers and default-constructed holders leave them.
\<close>

definition Init :: "bool \<Rightarrow> bool \<Rightarrow> 'opts RealDMD" where
  "Init dllFound shouldEnable =
     \<lparr>enabled = (dllFound \<and> shouldEnable), sessionOpen = False,
      writerThreadQuit = False, writerEvent = False, slideShow = [],
      writerFrame = None, writerSettings = None, slideShowPos = 0,
      slideShowTimerRunning = False, slideShowTimerDelay = 0\<rparr>"

text \<open>
  Modelled from the spec: \<open>RealDMD::SendWriterFrame\<close>, declared only. "Producers write
  into two single-slot mailboxes under a short-held lock: next frame and next settings,
  and signal a wake event." The slot is overwritten: "there is no queueing of historical
  frames, only latest wins."
\<close>

definition SendWriterFrame :: "Slide \<Rightarrow> 'opts RealDMD \<Rightarrow> 'opts RealDMD" where
  "SendWriterFrame slide s = s\<lparr>writerFrame := Some slide, writerEvent := True\<rparr>"

text \<open>
  Modelled from the spec: the session's frame-send operation (\<open>SendFrame\<close> of the
  DeviceSession component), whose code is not in the headers. "If disabled, all operations
  become no-ops returning success, so callers never need to branch on enablement." When
  enabled, the frame is handed to the writer mailbox. Like the \<open>void\<close> functions the
  header declares, it has no result but the state: returning is its success.
\<close>

definition SendFrameOp :: "Slide \<Rightarrow> 'opts RealDMD \<Rightarrow> 'opts RealDMD" where
  "SendFrameOp slide s = (if enabled s then SendWriterFrame slide s else s)"

text \<open>
  Modelled from the spec: \<open>RealDMD::SetGameSettings\<close>, declared only, with return type
  \<open>void\<close>. It is a no-op when the session is disabled, like every session operation.
  When enabled, the settings go into the settings mailbox and the writer is woken;
  "superseded settings are simply replaced, never queued".
\<close>

definition SetGameSettings :: "string \<Rightarrow> 'opts \<Rightarrow> 'opts RealDMD \<Rightarrow> 'opts RealDMD" where
  "SetGameSettings name options s =
     (if enabled s
      then s\<lparr>writerSettings := Some \<lparr>gameName = name, opts = options\<rparr>,
             writerEvent := True\<rparr>
      else s)"




text \<open>
  Modelled from the spec: the device call that applies settings taken from the settings
  mailbox (\<open>SendGameSettings(gameId, options)\<close>), none when the mailbox was empty.
\<close>

definition SettingsCalls :: "'opts GameSettings option \<Rightarrow> 'opts DeviceCall list" where
  "SettingsCalls settings =
     (case settings of None \<Rightarrow> [] | Some g \<Rightarrow> [PM_GameSettings (gameName g) (opts g)])"

text \<open>
  Modelled from the spec: the device call that sends a frame taken from the frame mailbox
  (\<open>SendFrame(colorSpace, pixels)\<close>), none when the mailbox was empty.
\<close>

definition FrameCalls :: "Slide option \<Rightarrow> 'opts DeviceCall list" where
  "FrameCalls frame =
     (case frame of None \<Rightarrow> [] | Some f \<Rightarrow> [SendFrame (colorSpace f) (pix f)])"

text \<open>
  Modelled from the spec: one wake cycle of \<open>RealDMD::WriterThreadMain\<close>, declared
  only. "The writer thread wakes, atomically takes whatever is currently in each mailbox
  (possibly both, possibly just one), clears the mailbox, releases the lock, and performs
  the device calls outside the lock"; "within one wake cycle, settings are applied before
  the frame that was captured in the same cycle"; a thread woken with the quit flag set
  makes no device call. The result is the device calls of the cycle, in order, and the
  state it leaves.
\<close>

definition WriterThreadWake :: "'opts RealDMD \<Rightarrow> 'opts DeviceCall list \<times> 'opts RealDMD" where
  "WriterThreadWake s =
     (if writerThreadQuit s then ([], s\<lparr>writerEvent := False\<rparr>)
      else
        (let frame = writerFrame s;
             settings = writerSettings s
         in (SettingsCalls settings @ FrameCalls frame,
             s\<lparr>writerFrame := None, writerSettings := None, writerEvent := False\<rparr>)))"


text \<open>
  Modelled from the spec: \<open>RealDMD::NextSlide\<close>, declared only, as the timer callback
  runs it. "\<open>Playing(i)\<close> on timer fire: \<open>Playing((i+1) mod len(slides))\<close>; re-arm timer
  for the new slide's displayTime; push the new slide to the device writer." With no
  slides (\<open>Empty\<close>) there is no transition.
\<close>

definition NextSlide :: "'opts RealDMD \<Rightarrow> 'opts RealDMD" where
  "NextSlide s =
     (if slideShow s = [] then s
      else
        (let pos = (slideShowPos s + 1) mod length (slideShow s);
             slide = slideShow s ! pos
         in SendWriterFrame slide
              (s\<lparr>slideShowPos := pos, slideShowTimerRunning := True,
                 slideShowTimerDelay := displayTime slide\<rparr>)))"

section \<open>Adoption of generated images\<close>

text \<open>
  C1. \<open>SetHighScoreImages seqno images\<close> adopts the images into the view's
  high-score image list exactly when \<open>seqno\<close> is \<open>pendingImageRequestSeqNo\<close>: then
  the list is the new images (and the list they replace is what is destroyed). When
  \<open>seqno\<close> differs, the view is left as it was, list and pending number included, and
  the images are destroyed, each by its destructor. In both cases the pending and the next
  sequence numbers keep their values.
\<close>

theorem SetHighScoreImages_adopts_iff_current:
  "(seqno = pendingImageRequestSeqNo v \<longrightarrow>
      highScoreImages (fst (SetHighScoreImages seqno images v)) = images \<and>
      snd (SetHighScoreImages seqno images v) = highScoreImages v) \<and>
   (seqno \<noteq> pendingImageRequestSeqNo v \<longrightarrow>
      fst (SetHighScoreImages seqno images v) = v \<and>
      snd (SetHighScoreImages seqno images v) = images \<and>
      DestroyImages (snd (SetHighScoreImages seqno images v))
        = concat (map HighScoreImage_dtor images)) \<and>
   pendingImageRequestSeqNo (fst (SetHighScoreImages seqno images v))
     = pendingImageRequestSeqNo v \<and>
   nextImageRequestSeqNo (fst (SetHighScoreImages seqno images v))
     = nextImageRequestSeqNo v"
  by (simp add: SetHighScoreImages_def DestroyImages_def)

theorem SetHighScoreImages_adopts_iff_current_witness:
  "fst (SetHighScoreImages 1
         [HighScoreImage_dib DMDSpriteType (0::nat) (Some 4096) 3500 default_bgColor 255]
         ((DMDView_new :: (nat, nat) DMDView)\<lparr>pendingImageRequestSeqNo := 2\<rparr>))
     = DMDView_new\<lparr>pendingImageRequestSeqNo := 2\<rparr> \<and>
   DestroyImages (snd (SetHighScoreImages 1
         [HighScoreImage_dib DMDSpriteType (0::nat) (Some 4096) 3500 default_bgColor 255]
         ((DMDView_new :: (nat, nat) DMDView)\<lparr>pendingImageRequestSeqNo := 2\<rparr>)))
     = [4096] \<and>
   highScoreImages (fst (SetHighScoreImages 2
         [HighScoreImage_dib DMDSpriteType (0::nat) (Some 8192) 3500 default_bgColor 255]
         ((DMDView_new :: (nat, nat) DMDView)\<lparr>pendingImageRequestSeqNo := 2\<rparr>)))
     = [HighScoreImage_dib DMDSpriteType (0::nat) (Some 8192) 3500 default_bgColor 255]"
  using
    SetHighScoreImages_adopts_iff_current
      [of 1 "(DMDView_new :: (nat, nat) DMDView)\<lparr>pendingImageRequestSeqNo := 2\<rparr>"
          "[HighScoreImage_dib DMDSpriteType (0::nat) (Some 4096) 3500 default_bgColor 255]"]
    SetHighScoreImages_adopts_iff_current
      [of 2 "(DMDView_new :: (nat, nat) DMDView)\<lparr>pendingImageRequestSeqNo := 2\<rparr>"
          "[HighScoreImage_dib DMDSpriteType (0::nat) (Some 8192) 3500 default_bgColor 255]"]
  by (simp add: DestroyImages_def HighScoreImage_dtor_def HighScoreImage_dib_def)

section \<open>The transfer constructor and the destructor\<close>

text \<open>
  C2. The claim is that the transfer constructor gives the new object the source's
  \<open>bgColor\<close> and \<open>bgAlpha\<close>. The constructor does not read them from the source:
  for a source with a red background and alpha 128, constructed into zeroed storage, the
  new object has a black background and alpha 0.
\<close>

theorem HighScoreImage_transfer_background_from_raw_storage:
  "bgColor (fst (HighScoreImage_transfer default_bgColor 0
      (HighScoreImage_dib DMDSpriteType (0::nat) (Some 4096) 3500
         \<lparr>rgbBlue = 0, rgbGreen = 0, rgbRed = 255, rgbReserved = 0\<rparr> 128
       :: (nat, nat) HighScoreImage)))
     = \<lparr>rgbBlue = 0, rgbGreen = 0, rgbRed = 0, rgbReserved = 0\<rparr> \<and>
   bgAlpha (fst (HighScoreImage_transfer default_bgColor 0
      (HighScoreImage_dib DMDSpriteType (0::nat) (Some 4096) 3500
         \<lparr>rgbBlue = 0, rgbGreen = 0, rgbRed = 255, rgbReserved = 0\<rparr> 128
       :: (nat, nat) HighScoreImage)))
     = 0 \<and>
   bgColor (HighScoreImage_dib DMDSpriteType (0::nat) (Some 4096) 3500
         \<lparr>rgbBlue = 0, rgbGreen = 0, rgbRed = 255, rgbReserved = 0\<rparr> 128
       :: (nat, nat) HighScoreImage)
     = \<lparr>rgbBlue = 0, rgbGreen = 0, rgbRed = 255, rgbReserved = 0\<rparr> \<and>
   bgAlpha (HighScoreImage_dib DMDSpriteType (0::nat) (Some 4096) 3500
         \<lparr>rgbBlue = 0, rgbGreen = 0, rgbRed = 255, rgbReserved = 0\<rparr> 128
       :: (nat, nat) HighScoreImage)
     = 128"
  by (simp add: HighScoreImage_transfer_def HighScoreImage_dib_def Detach_def default_bgColor_def)

text \<open>
  C3. The destructor frees the raw pixel buffer if and only if the image holds no bitmap
  handle and \<open>dibits\<close> is not null: with a handle nothing is freed, and without a handle
  a non-null buffer is freed exactly once (and nothing else is).
\<close>

theorem HighScoreImage_dtor_frees_iff_unowned:
  "(p \<in> set (HighScoreImage_dtor img) \<longleftrightarrow> hbmp img = None \<and> dibits img = Some p) \<and>
   (hbmp img \<noteq> None \<longrightarrow> HighScoreImage_dtor img = []) \<and>
   (hbmp img = None \<and> dibits img = Some p \<longrightarrow>
      count_list (HighScoreImage_dtor img) p = 1 \<and> HighScoreImage_dtor img = [p]) \<and>
   (dibits img = None \<longrightarrow> HighScoreImage_dtor img = [])"
  by (auto simp: HighScoreImage_dtor_def)

theorem HighScoreImage_dtor_frees_iff_unowned_witness:
  "HighScoreImage_dtor
     (HighScoreImage_hbmp DMDSpriteType (Some 7) (0::nat) (Some 4096) 3500
        :: (nat, nat) HighScoreImage) = [] \<and>
   count_list (HighScoreImage_dtor
     (HighScoreImage_dib DMDSpriteType (0::nat) (Some 4096) 3500 default_bgColor 255
        :: (nat, nat) HighScoreImage)) 4096 = 1 \<and>
   HighScoreImage_dtor
     (HighScoreImage_type (0::nat) NormalSpriteType 3500 :: (nat, nat) HighScoreImage) = []"
  using
    HighScoreImage_dtor_frees_iff_unowned
      [of 4096 "HighScoreImage_hbmp DMDSpriteType (Some 7) (0::nat) (Some 4096) 3500
                 :: (nat, nat) HighScoreImage"]
    HighScoreImage_dtor_frees_iff_unowned
      [of 4096 "HighScoreImage_dib DMDSpriteType (0::nat) (Some 4096) 3500 default_bgColor 255
                 :: (nat, nat) HighScoreImage"]
    HighScoreImage_dtor_frees_iff_unowned
      [of 4096 "HighScoreImage_type (0::nat) NormalSpriteType 3500 :: (nat, nat) HighScoreImage"]
  by (simp add: HighScoreImage_hbmp_def HighScoreImage_dib_def HighScoreImage_type_def)

section \<open>Request sequence numbers\<close>





section \<open>The writer thread\<close>






text \<open>
  C6. In a wake cycle (not one woken to quit) that takes both pending settings and a
  pending frame from the mailboxes, the device calls of the cycle are the
  \<open>PM_GameSettings\<close> call followed by the \<open>SendFrame\<close> call of that frame.
\<close>

theorem WriterThreadWake_settings_before_frame:
  assumes "\<not> writerThreadQuit s"
    and "writerSettings s = Some g"
    and "writerFrame s = Some f"
  shows "fst (WriterThreadWake s)
           = [PM_GameSettings (gameName g) (opts g), SendFrame (colorSpace f) (pix f)]"
  using assms by (simp add: WriterThreadWake_def SettingsCalls_def FrameCalls_def)

theorem WriterThreadWake_settings_before_frame_witness:
  "fst (WriterThreadWake
     (SendFrameOp
        \<lparr>slideType = MediaSlide, colorSpace = DMD_COLOR_MONO4, pix = [1], displayTime = 3500\<rparr>
        (SetGameSettings ''afm_113b'' (7::nat) (Init True True))))
     = [PM_GameSettings ''afm_113b'' 7, SendFrame DMD_COLOR_MONO4 [1]]"
  using WriterThreadWake_settings_before_frame
    [of "SendFrameOp
        \<lparr>slideType = MediaSlide, colorSpace = DMD_COLOR_MONO4, pix = [1], displayTime = 3500\<rparr>
        (SetGameSettings ''afm_113b'' (7::nat) (Init True True))"
        "\<lparr>gameName = ''afm_113b'', opts = 7\<rparr>"
        "\<lparr>slideType = MediaSlide, colorSpace = DMD_COLOR_MONO4, pix = [1], displayTime = 3500\<rparr>"]
  by (simp add: Init_def SetGameSettings_def SendFrameOp_def SendWriterFrame_def)

text \<open>
  The order of the two device calls does not depend on the order in which the producers
  filled the two mailboxes.
\<close>

lemma WriterThreadWake_order_independent_of_enqueue_order:
  assumes "enabled s" and "\<not> writerThreadQuit s"
  shows "fst (WriterThreadWake (SetGameSettings name options (SendFrameOp f s)))
           = [PM_GameSettings name options, SendFrame (colorSpace f) (pix f)]"
    and "fst (WriterThreadWake (SendFrameOp f (SetGameSettings name options s)))
           = [PM_GameSettings name options, SendFrame (colorSpace f) (pix f)]"
  using assms
  by (simp_all add: WriterThreadWake_def SettingsCalls_def FrameCalls_def SetGameSettings_def
      SendFrameOp_def SendWriterFrame_def)

section \<open>The disabled session\<close>






section \<open>The slide show\<close>

lemma NextSlide_fields:
  assumes "slideShow s \<noteq> []"
  shows "slideShowPos (NextSlide s) = (slideShowPos s + 1) mod length (slideShow s)"
    and "slideShow (NextSlide s) = slideShow s"
    and "slideShowTimerRunning (NextSlide s)"
    and "slideShowTimerDelay (NextSlide s)
           = displayTime (slideShow s ! ((slideShowPos s + 1) mod length (slideShow s)))"
    and "writerFrame (NextSlide s)
           = Some (slideShow s ! ((slideShowPos s + 1) mod length (slideShow s)))"
  using assms by (simp_all add: NextSlide_def SendWriterFrame_def Let_def)

lemma NextSlide_funpow:
  assumes "slideShow s \<noteq> []"
  shows "slideShow ((NextSlide ^^ k) s) = slideShow s \<and>
         slideShowPos ((NextSlide ^^ k) s) mod length (slideShow s)
           = (slideShowPos s + k) mod length (slideShow s)"
proof (induction k)
  case 0
  show ?case by simp
next
  case (Suc k)
  let ?t = "(NextSlide ^^ k) s"
  from Suc have same: "slideShow ?t = slideShow s"
    and pos: "slideShowPos ?t mod length (slideShow s) = (slideShowPos s + k) mod length (slideShow s)"
    by simp_all
  from same assms have ne: "slideShow ?t \<noteq> []" by simp
  have "slideShowPos (NextSlide ?t) mod length (slideShow s)
          = (slideShowPos ?t mod length (slideShow s) + 1) mod length (slideShow s)"
    by (simp add: NextSlide_fields(1) [OF ne] same mod_simps)
  also have "\<dots> = (slideShowPos s + Suc k) mod length (slideShow s)"
    by (simp add: pos mod_simps)
  finally show ?case
    by (simp add: NextSlide_fields(2) [OF ne] same)
qed

text \<open>
  C8. For a non-empty slide list of length \<open>n\<close> and a current position \<open>i < n\<close>, a
  timer fire moves the position to \<open>(i + 1) mod n\<close>, arms the timer with the
  \<open>displayTime\<close> of the slide at the new position, and puts that slide into the
  writer's frame mailbox; the list is unchanged. Hence after \<open>k\<close> fires the position is
  \<open>(i + k) mod n\<close> for every \<open>k\<close>, and after \<open>n\<close> fires it is \<open>i\<close> again: the list
  loops for as long as it is not replaced or cleared.
\<close>

theorem NextSlide_advances_and_loops:
  assumes "slideShow s \<noteq> []"
    and "slideShowPos s < length (slideShow s)"
  shows "slideShowPos (NextSlide s) = (slideShowPos s + 1) mod length (slideShow s) \<and>
         slideShowPos (NextSlide s) < length (slideShow s) \<and>
         slideShow (NextSlide s) = slideShow s \<and>
         slideShowTimerRunning (NextSlide s) \<and>
         slideShowTimerDelay (NextSlide s)
           = displayTime (slideShow s ! slideShowPos (NextSlide s)) \<and>
         writerFrame (NextSlide s) = Some (slideShow s ! slideShowPos (NextSlide s)) \<and>
         slideShow ((NextSlide ^^ k) s) = slideShow s \<and>
         slideShowPos ((NextSlide ^^ k) s) = (slideShowPos s + k) mod length (slideShow s) \<and>
         slideShowPos ((NextSlide ^^ length (slideShow s)) s) = slideShowPos s"
proof -
  have n: "0 < length (slideShow s)" using assms(1) by simp
  have step: "slideShowPos (NextSlide s) < length (slideShow s)"
    using n by (simp add: NextSlide_fields(1) [OF assms(1)])
  have inv: "slideShowPos ((NextSlide ^^ j) s) < length (slideShow s)" for j
  proof (induction j)
    case 0
    show ?case using assms(2) by simp
  next
    case (Suc j)
    have "slideShow ((NextSlide ^^ j) s) \<noteq> []"
      using NextSlide_funpow [OF assms(1), of j] assms(1) by simp
    then show ?case
      using NextSlide_funpow [OF assms(1), of j] n
      by (simp add: NextSlide_fields(1))
  qed
  have pos: "slideShowPos ((NextSlide ^^ j) s) = (slideShowPos s + j) mod length (slideShow s)" for j
    using NextSlide_funpow [OF assms(1), of j] inv [of j] by simp
  have cycle: "slideShowPos ((NextSlide ^^ length (slideShow s)) s) = slideShowPos s"
    using assms(2) by (simp add: pos)
  show ?thesis
    using NextSlide_funpow [OF assms(1), of k] step cycle
    by (simp add: NextSlide_fields [OF assms(1)] pos)
qed

theorem NextSlide_advances_and_loops_witness:
  "slideShowPos (NextSlide
     ((Init True True :: nat RealDMD)
        \<lparr>slideShow :=
           [\<lparr>slideType = MediaSlide, colorSpace = DMD_COLOR_MONO4, pix = [1], displayTime = 5000\<rparr>,
            \<lparr>slideType = HighScoreSlide, colorSpace = DMD_COLOR_MONO4, pix = [2], displayTime = 3500\<rparr>],
          slideShowPos := 1\<rparr>)) = 0 \<and>
   slideShowTimerDelay (NextSlide
     ((Init True True :: nat RealDMD)
        \<lparr>slideShow :=
           [\<lparr>slideType = MediaSlide, colorSpace = DMD_COLOR_MONO4, pix = [1], displayTime = 5000\<rparr>,
            \<lparr>slideType = HighScoreSlide, colorSpace = DMD_COLOR_MONO4, pix = [2], displayTime = 3500\<rparr>],
          slideShowPos := 1\<rparr>)) = 5000 \<and>
   writerFrame (NextSlide
     ((Init True True :: nat RealDMD)
        \<lparr>slideShow :=
           [\<lparr>slideType = MediaSlide, colorSpace = DMD_COLOR_MONO4, pix = [1], displayTime = 5000\<rparr>,
            \<lparr>slideType = HighScoreSlide, colorSpace = DMD_COLOR_MONO4, pix = [2], displayTime = 3500\<rparr>],
          slideShowPos := 1\<rparr>))
     = Some \<lparr>slideType = MediaSlide, colorSpace = DMD_COLOR_MONO4, pix = [1], displayTime = 5000\<rparr>"
  using NextSlide_advances_and_loops
    [of "(Init True True :: nat RealDMD)
        \<lparr>slideShow :=
           [\<lparr>slideType = MediaSlide, colorSpace = DMD_COLOR_MONO4, pix = [1], displayTime = 5000\<rparr>,
            \<lparr>slideType = HighScoreSlide, colorSpace = DMD_COLOR_MONO4, pix = [2], displayTime = 3500\<rparr>],
          slideShowPos := 1\<rparr>" 0]
  by (simp add: Init_def)

section \<open>Ownership after a transfer\<close>

lemma HighScoreImage_transfer_fields:
  "fst (HighScoreImage_transfer rc ra i) =
     \<lparr>spriteType = spriteType i, sprite = sprite i, hbmp = hbmp i, bmi = bmi i,
      dibits = dibits i, displayTime = HighScoreImage.displayTime i,
      bgColor = rc, bgAlpha = ra\<rparr>"
  "snd (HighScoreImage_transfer rc ra i) = i\<lparr>sprite := None, hbmp := None, dibits := None\<rparr>"
  by (simp_all add: HighScoreImage_transfer_def Detach_def)

text \<open>
  C9. After the transfer constructor, the source owns nothing: its \<open>dibits\<close> is null
  and its \<open>sprite\<close> and \<open>hbmp\<close> holders are empty, so its destructor frees nothing.
  Destroying the source and the new object frees exactly what destroying the original
  would have freed, so any pixel buffer is freed at most once in total.
\<close>

theorem HighScoreImage_transfer_empties_source:
  "dibits (snd (HighScoreImage_transfer rc ra i)) = None \<and>
   sprite (snd (HighScoreImage_transfer rc ra i)) = None \<and>
   hbmp (snd (HighScoreImage_transfer rc ra i)) = None \<and>
   HighScoreImage_dtor (snd (HighScoreImage_transfer rc ra i)) = [] \<and>
   HighScoreImage_dtor (snd (HighScoreImage_transfer rc ra i))
     @ HighScoreImage_dtor (fst (HighScoreImage_transfer rc ra i)) = HighScoreImage_dtor i \<and>
   count_list
     (HighScoreImage_dtor (snd (HighScoreImage_transfer rc ra i))
       @ HighScoreImage_dtor (fst (HighScoreImage_transfer rc ra i))) p \<le> 1"
  by (simp add: HighScoreImage_transfer_fields HighScoreImage_dtor_def)

theorem HighScoreImage_transfer_empties_source_witness:
  "HighScoreImage_dtor (snd (HighScoreImage_transfer default_bgColor 0
      (HighScoreImage_dib DMDSpriteType (0::nat) (Some 4096) 3500 default_bgColor 255
        :: (nat, nat) HighScoreImage)))
     @ HighScoreImage_dtor (fst (HighScoreImage_transfer default_bgColor 0
      (HighScoreImage_dib DMDSpriteType (0::nat) (Some 4096) 3500 default_bgColor 255
        :: (nat, nat) HighScoreImage)))
     = [4096]"
  using HighScoreImage_transfer_empties_source
    [of default_bgColor 0
        "HighScoreImage_dib DMDSpriteType (0::nat) (Some 4096) 3500 default_bgColor 255
          :: (nat, nat) HighScoreImage" 4096]
  by (simp add: HighScoreImage_dtor_def HighScoreImage_dib_def HighScoreImage_transfer_def
      Detach_def)

section \<open>Deferred sprite creation\<close>

text \<open>
  A load that failed is attempted again by the next call: when the first call's load
  fails and the second call's load succeeds, two calls leave a sprite where one call leaves
  none.
\<close>

theorem CreateSprite_retry_counterexample:
  "sprite (CreateSprite (\<lambda>b d. None) (\<lambda>b d. None)
      (HighScoreImage_dib DMDSpriteType (0::nat) (Some 4096) 3500 default_bgColor 255
        :: (nat, nat) HighScoreImage)) = None \<and>
   sprite (CreateSprite (\<lambda>b d. Some (PlainSprite 1)) (\<lambda>b d. Some 2)
      (CreateSprite (\<lambda>b d. None) (\<lambda>b d. None)
        (HighScoreImage_dib DMDSpriteType (0::nat) (Some 4096) 3500 default_bgColor 255
          :: (nat, nat) HighScoreImage)))
     = Some (DMDSprite default_bgColor 255 2) \<and>
   CreateSprite (\<lambda>b d. Some (PlainSprite 1)) (\<lambda>b d. Some 2)
      (CreateSprite (\<lambda>b d. None) (\<lambda>b d. None)
        (HighScoreImage_dib DMDSpriteType (0::nat) (Some 4096) 3500 default_bgColor 255
          :: (nat, nat) HighScoreImage))
     \<noteq> CreateSprite (\<lambda>b d. None) (\<lambda>b d. None)
        (HighScoreImage_dib DMDSpriteType (0::nat) (Some 4096) 3500 default_bgColor 255
          :: (nat, nat) HighScoreImage)"
  by (simp add: CreateSprite_def HighScoreImage_dib_def DMDSprite_Load_def)

lemma CreateSprite_unchanged_if_sprite:
  "sprite img \<noteq> None \<Longrightarrow> CreateSprite Sprite_Load LoadDIB img = img"
  by (auto simp: CreateSprite_def)

lemma CreateSprite_failed_load:
  "sprite (CreateSprite Sprite_Load LoadDIB img) = None
    \<Longrightarrow> CreateSprite Sprite_Load LoadDIB img = img"
  by (auto simp: CreateSprite_def split: SpriteType.splits if_splits)

text \<open>
  C10, amended. \<open>CreateSprite\<close> leaves an image whose \<open>sprite\<close> is not null entirely
  unchanged, so it never replaces an existing sprite. Calling it twice in sequence yields
  the same image as calling it once exactly when the first call left a sprite or the
  second call's load fails as well; in particular when both calls' loads return the same
  results. (\<open>Sprite_Load\<close>, \<open>LoadDIB\<close> are what the loads return at the first call,
  \<open>Sprite_Load'\<close>, \<open>LoadDIB'\<close> at the second.)
\<close>

theorem CreateSprite_twice_eq_once_iff:
  "(sprite img \<noteq> None \<longrightarrow> CreateSprite Sprite_Load LoadDIB img = img) \<and>
   (sprite img = Some sp \<longrightarrow> sprite (CreateSprite Sprite_Load LoadDIB img) = Some sp) \<and>
   (CreateSprite Sprite_Load' LoadDIB' (CreateSprite Sprite_Load LoadDIB img)
        = CreateSprite Sprite_Load LoadDIB img
      \<longleftrightarrow> sprite (CreateSprite Sprite_Load LoadDIB img) \<noteq> None
          \<or> sprite (CreateSprite Sprite_Load' LoadDIB' img) = None) \<and>
   CreateSprite Sprite_Load LoadDIB (CreateSprite Sprite_Load LoadDIB img)
     = CreateSprite Sprite_Load LoadDIB img"
proof -
  have keep: "sprite img \<noteq> None \<longrightarrow> CreateSprite Sprite_Load LoadDIB img = img"
    by (simp add: CreateSprite_unchanged_if_sprite)
  have same: "sprite img = Some sp \<longrightarrow> sprite (CreateSprite Sprite_Load LoadDIB img) = Some sp"
    by (simp add: CreateSprite_unchanged_if_sprite)
  have twice: "CreateSprite Sprite_Load' LoadDIB' (CreateSprite Sprite_Load LoadDIB img)
        = CreateSprite Sprite_Load LoadDIB img
      \<longleftrightarrow> sprite (CreateSprite Sprite_Load LoadDIB img) \<noteq> None
          \<or> sprite (CreateSprite Sprite_Load' LoadDIB' img) = None"
  proof (cases "sprite (CreateSprite Sprite_Load LoadDIB img) = None")
    case False
    then show ?thesis by (simp add: CreateSprite_unchanged_if_sprite)
  next
    case True
    then have first: "CreateSprite Sprite_Load LoadDIB img = img"
      by (rule CreateSprite_failed_load)
    have "CreateSprite Sprite_Load' LoadDIB' img = img
            \<longleftrightarrow> sprite (CreateSprite Sprite_Load' LoadDIB' img) = None"
    proof
      assume "CreateSprite Sprite_Load' LoadDIB' img = img"
      with True first show "sprite (CreateSprite Sprite_Load' LoadDIB' img) = None" by simp
    next
      assume "sprite (CreateSprite Sprite_Load' LoadDIB' img) = None"
      then show "CreateSprite Sprite_Load' LoadDIB' img = img"
        by (rule CreateSprite_failed_load)
    qed
    with True first show ?thesis by simp
  qed
  have again: "CreateSprite Sprite_Load LoadDIB (CreateSprite Sprite_Load LoadDIB img)
                 = CreateSprite Sprite_Load LoadDIB img"
  proof (cases "sprite (CreateSprite Sprite_Load LoadDIB img) = None")
    case False
    then show ?thesis by (simp add: CreateSprite_unchanged_if_sprite)
  next
    case True
    then have "CreateSprite Sprite_Load LoadDIB img = img"
      by (rule CreateSprite_failed_load)
    then show ?thesis by simp
  qed
  from keep same twice again show ?thesis by blast
qed

theorem CreateSprite_twice_eq_once_iff_witness:
  "CreateSprite (\<lambda>b d. None) (\<lambda>b d. None)
     (CreateSprite (\<lambda>b d. Some (PlainSprite (1::nat))) (\<lambda>b d. Some 2)
        (HighScoreImage_dib DMDSpriteType (0::nat) (Some 4096) 3500 default_bgColor 255))
     = CreateSprite (\<lambda>b d. Some (PlainSprite (1::nat))) (\<lambda>b d. Some 2)
        (HighScoreImage_dib DMDSpriteType (0::nat) (Some 4096) 3500 default_bgColor 255) \<and>
   sprite (CreateSprite (\<lambda>b d. Some (PlainSprite (1::nat))) (\<lambda>b d. Some 2)
        (HighScoreImage_dib DMDSpriteType (0::nat) (Some 4096) 3500 default_bgColor 255))
     = Some (DMDSprite default_bgColor 255 2) \<and>
   CreateSprite (\<lambda>b d. None) (\<lambda>b d. None)
     (HighScoreImage_sprite (0::nat) (Some (PlainSprite (5::nat))) 3500)
     = HighScoreImage_sprite (0::nat) (Some (PlainSprite (5::nat))) 3500"
  using
    CreateSprite_twice_eq_once_iff
      [of "HighScoreImage_dib DMDSpriteType (0::nat) (Some 4096) 3500 default_bgColor 255"
          "\<lambda>b d. Some (PlainSprite (1::nat))" "\<lambda>b d. Some 2" "PlainSprite 0"
          "\<lambda>b d. None" "\<lambda>b d. None"]
    CreateSprite_twice_eq_once_iff
      [of "HighScoreImage_sprite (0::nat) (Some (PlainSprite (5::nat))) 3500"
          "\<lambda>b d. None" "\<lambda>b d. None" "PlainSprite 5" "\<lambda>b d. None" "\<lambda>b d. None"]
  by (simp add: CreateSprite_def HighScoreImage_dib_def HighScoreImage_sprite_def DMDSprite_Load_def)

end
